theory Spec2Isabelle
  imports Main "HOL-Library.Word"
begin

section \<open>JavaScript strings\<close>

text \<open>
  A JavaScript string is a sequence of 16-bit code units. \<open>js\<close> turns an Isabelle
  literal into one, so that examples can be written as \<open>js ''alice''\<close>.
\<close>

type_synonym js_string = "16 word list"

definition js :: "string \<Rightarrow> js_string" where
  "js s = map of_char s"

text \<open>
  \<open>String.prototype.trim\<close> strips the ECMAScript WhiteSpace and LineTerminator code
  points from both ends: TAB, LF, VT, FF, CR, SP, NBSP, the other space separators
  (U+1680, U+2000 to U+200A, U+202F, U+205F, U+3000), LS, PS and the BOM.
\<close>

definition isWhiteSpace :: "16 word \<Rightarrow> bool" where
  "isWhiteSpace c =
     (c \<in> set [0x09, 0x0A, 0x0B, 0x0C, 0x0D, 0x20, 0xA0, 0x1680,
                0x2028, 0x2029, 0x202F, 0x205F, 0x3000, 0xFEFF]
      \<or> (0x2000 \<le> c \<and> c \<le> 0x200A))"

definition trim :: "js_string \<Rightarrow> js_string" where
  "trim s = rev (dropWhile isWhiteSpace (rev (dropWhile isWhiteSpace s)))"

text \<open>A string is truthy in a condition exactly when it is not empty.\<close>

definition truthy :: "js_string \<Rightarrow> bool" where
  "truthy s = (s \<noteq> [])"

text \<open>\<open>x || []\<close> on a field that holds an array or is absent.\<close>

definition or_empty :: "'a list option \<Rightarrow> 'a list" where
  "or_empty x = (case x of None \<Rightarrow> [] | Some xs \<Rightarrow> xs)"

datatype js_error = TypeError


section \<open>Data of the chat client\<close>

record room =
  room_id :: js_string
  room_name :: js_string
  created_by :: js_string
  created_at :: js_string

text \<open>
  A message as the server broadcasts it. The client reads \<open>username\<close>, \<open>message\<close>
  and \<open>timestamp\<close>; \<open>msg_room_id\<close> is the room the message was sent in, which no
  line of the client looks at.
\<close>

record message =
  msg_username :: js_string
  msg_message :: js_string
  msg_timestamp :: js_string
  msg_room_id :: js_string

record user =
  user_username :: js_string

text \<open>Events the client emits on the socket.\<close>

datatype out_event =
    Join_room js_string js_string
  | Leave_room js_string
  | Send_message js_string js_string
  | Typing js_string bool

text \<open>
  Payloads of the events the client listens to. A field that may be missing is an
  option; a handler called with no payload at all gets \<open>None\<close> for the payload.
\<close>

record room_joined_data =
  rj_messages :: "message list option"
  rj_users :: "user list option"

record users_data =
  users :: "user list option"

record user_typing_data =
  ut_username :: js_string
  is_typing :: bool

datatype in_event =
    Room_joined "room_joined_data option"
  | New_message message
  | User_joined "users_data option"
  | User_left "users_data option"
  | User_typing "user_typing_data option"


section \<open>The ChatRoom component\<close>

text \<open>
  The props \<open>room\<close> and \<open>username\<close> of one mounted ChatRoom, its four pieces of
  state and the timer handle kept in \<open>typingTimeoutRef\<close> (\<open>None\<close> is \<open>null\<close>).
\<close>

record chat_room =
  prop_room :: room
  prop_username :: js_string
  messages :: "message list"
  newMessage :: js_string
  onlineUsers :: "user list"
  typingUsers :: "js_string list"
  typingTimeoutRef :: "nat option"

definition ChatRoom_initial :: "room \<Rightarrow> js_string \<Rightarrow> chat_room" where
  "ChatRoom_initial r u =
     \<lparr>prop_room = r, prop_username = u, messages = [], newMessage = [],
      onlineUsers = [], typingUsers = [], typingTimeoutRef = None\<rparr>"

subsection \<open>Socket listeners\<close>

text \<open>
  Reading a field of an undefined payload throws before any state setter runs, so the
  listeners return either the error or the new component state.
\<close>

definition on_room_joined :: "room_joined_data option \<Rightarrow> chat_room \<Rightarrow> js_error + chat_room" where
  "on_room_joined data c =
     (case data of
        None \<Rightarrow> Inl TypeError
      | Some d \<Rightarrow>
          Inr (c\<lparr>messages := or_empty (rj_messages d),
                 onlineUsers := or_empty (rj_users d)\<rparr>))"

definition on_new_message :: "message \<Rightarrow> chat_room \<Rightarrow> js_error + chat_room" where
  "on_new_message m c = Inr (c\<lparr>messages := messages c @ [m]\<rparr>)"

definition on_user_joined :: "users_data option \<Rightarrow> chat_room \<Rightarrow> js_error + chat_room" where
  "on_user_joined data c =
     (case data of
        None \<Rightarrow> Inl TypeError
      | Some d \<Rightarrow> Inr (c\<lparr>onlineUsers := or_empty (users d)\<rparr>))"

definition on_user_left :: "users_data option \<Rightarrow> chat_room \<Rightarrow> js_error + chat_room" where
  "on_user_left data c =
     (case data of
        None \<Rightarrow> Inl TypeError
      | Some d \<Rightarrow> Inr (c\<lparr>onlineUsers := or_empty (users d)\<rparr>))"

definition on_user_typing :: "user_typing_data option \<Rightarrow> chat_room \<Rightarrow> js_error + chat_room" where
  "on_user_typing data c =
     (case data of
        None \<Rightarrow> Inl TypeError
      | Some d \<Rightarrow>
          (if is_typing d
           then Inr (c\<lparr>typingUsers :=
                         filter (\<lambda>u. u \<noteq> ut_username d) (typingUsers c) @ [ut_username d]\<rparr>)
           else Inr (c\<lparr>typingUsers :=
                         filter (\<lambda>u. u \<noteq> ut_username d) (typingUsers c)\<rparr>)))"

fun listener :: "in_event \<Rightarrow> chat_room \<Rightarrow> js_error + chat_room" where
  "listener (Room_joined d) c = on_room_joined d c"
| "listener (New_message m) c = on_new_message m c"
| "listener (User_joined d) c = on_user_joined d c"
| "listener (User_left d) c = on_user_left d c"
| "listener (User_typing d) c = on_user_typing d c"

subsection \<open>Rendering of one message\<close>

datatype justify = Justify_end | Justify_start

datatype bubble_style = Blue_bubble | White_bubble

record message_view =
  row_justify :: justify
  bubble :: bubble_style
  sender_label :: "js_string option"

definition render_message :: "js_string \<Rightarrow> message \<Rightarrow> message_view" where
  "render_message username m =
     \<lparr>row_justify = (if msg_username m = username then Justify_end else Justify_start),
      bubble = (if msg_username m = username then Blue_bubble else White_bubble),
      sender_label = (if msg_username m \<noteq> username then Some (msg_username m) else None)\<rparr>"


section \<open>The application\<close>

datatype app_state = St_username | St_rooms | St_chat

text \<open>
  A pending \<open>setTimeout\<close>: its handle, the time it is due, and the room id its
  callback closed over (the callback emits \<open>typing\<close> with \<open>is_typing: false\<close> for it).
\<close>

record timer =
  timer_id :: nat
  deadline :: nat
  timer_room :: js_string

text \<open>
  The whole client: the text field of UsernameModal, the three pieces of state of App,
  the mounted ChatRoom if there is one, whether the socket of SocketProvider exists yet,
  whether the five room listeners are attached to it, the pending timers with the next
  free handle, a clock in milliseconds, and the log of emitted events with their times.
\<close>

record app =
  username_input :: js_string
  username :: js_string
  currentRoom :: "room option"
  appState :: app_state
  chat :: "chat_room option"
  socket :: bool
  listening :: bool
  timers :: "timer list"
  next_timer :: nat
  now :: nat
  emitted :: "(nat \<times> out_event) list"

definition initial :: app where
  "initial =
     \<lparr>username_input = [], username = [], currentRoom = None, appState = St_username,
      chat = None, socket = False, listening = False, timers = [], next_timer = 1,
      now = 0, emitted = []\<rparr>"

definition emit :: "out_event \<Rightarrow> app \<Rightarrow> app" where
  "emit e w = w\<lparr>emitted := emitted w @ [(now w, e)]\<rparr>"

definition clearTimeout :: "nat \<Rightarrow> app \<Rightarrow> app" where
  "clearTimeout i w = w\<lparr>timers := filter (\<lambda>x. timer_id x \<noteq> i) (timers w)\<rparr>"

definition setTimeout :: "js_string \<Rightarrow> nat \<Rightarrow> app \<Rightarrow> nat \<times> app" where
  "setTimeout rid delay w =
     (next_timer w,
      w\<lparr>timers := timers w @
           [\<lparr>timer_id = next_timer w, deadline = now w + delay, timer_room = rid\<rparr>],
        next_timer := Suc (next_timer w)\<rparr>)"

text \<open>
  Time passes until \<open>t\<close>: every timer due by then fires, earliest first, and emits
  its \<open>typing\<close> stop at the time it was due.
\<close>

definition advance :: "nat \<Rightarrow> app \<Rightarrow> app" where
  "advance t w =
     w\<lparr>emitted := emitted w @
          map (\<lambda>x. (deadline x, Typing (timer_room x) False))
              (sort_key deadline (filter (\<lambda>x. deadline x \<le> t) (timers w))),
       timers := filter (\<lambda>x. \<not> deadline x \<le> t) (timers w),
       now := max (now w) t\<rparr>"

subsection \<open>UsernameModal\<close>

definition handleSetUsername :: "js_string \<Rightarrow> app \<Rightarrow> app" where
  "handleSetUsername name w = w\<lparr>username := name, appState := St_rooms\<rparr>"

definition handleSubmit :: "app \<Rightarrow> app" where
  "handleSubmit w =
     (if truthy (trim (username_input w))
      then handleSetUsername (trim (username_input w)) w
      else w)"

subsection \<open>Mounting and unmounting ChatRoom\<close>

text \<open>
  The effect of ChatRoom runs when \<open>socket\<close> and \<open>room\<close> are both there: it emits
  \<open>join_room\<close> and attaches the listeners. Its cleanup detaches them.
\<close>

definition ChatRoom_effect :: "chat_room \<Rightarrow> app \<Rightarrow> app" where
  "ChatRoom_effect c w =
     (if socket w
      then (emit (Join_room (prop_username c) (room_id (prop_room c))) w)\<lparr>listening := True\<rparr>
      else w)"

definition ChatRoom_mount :: "room \<Rightarrow> app \<Rightarrow> app" where
  "ChatRoom_mount r w =
     (let c = ChatRoom_initial r (username w)
      in ChatRoom_effect c (w\<lparr>chat := Some c\<rparr>))"

definition ChatRoom_unmount :: "app \<Rightarrow> app" where
  "ChatRoom_unmount w = w\<lparr>chat := None, listening := False\<rparr>"

subsection \<open>App\<close>

definition handleJoinRoom :: "room \<Rightarrow> app \<Rightarrow> app" where
  "handleJoinRoom r w = ChatRoom_mount r (w\<lparr>currentRoom := Some r, appState := St_chat\<rparr>)"

definition handleCreateRoom :: "room \<Rightarrow> app \<Rightarrow> app" where
  "handleCreateRoom r w = ChatRoom_mount r (w\<lparr>currentRoom := Some r, appState := St_chat\<rparr>)"

definition App_handleLeaveRoom :: "app \<Rightarrow> app" where
  "App_handleLeaveRoom w = ChatRoom_unmount (w\<lparr>currentRoom := None, appState := St_rooms\<rparr>)"

subsection \<open>Handlers of ChatRoom\<close>

definition handleSendMessage :: "app \<Rightarrow> app" where
  "handleSendMessage w =
     (case chat w of
        None \<Rightarrow> w
      | Some c \<Rightarrow>
          (if truthy (trim (newMessage c)) \<and> socket w
           then
             (let w1 = emit (Send_message (room_id (prop_room c)) (trim (newMessage c))) w;
                  w2 = w1\<lparr>chat := Some (c\<lparr>newMessage := []\<rparr>)\<rparr>
              in emit (Typing (room_id (prop_room c)) False) w2)
           else w))"

text \<open>
  The handles that \<open>setTimeout\<close> returns are positive numbers, so the truthiness test
  of \<open>typingTimeoutRef.current\<close> is the test that it is not \<open>null\<close>. Clearing a
  handle whose timer has already fired removes nothing.
\<close>

definition handleTyping :: "js_string \<Rightarrow> app \<Rightarrow> app" where
  "handleTyping v w =
     (case chat w of
        None \<Rightarrow> w
      | Some c \<Rightarrow>
          (if socket w
           then
             (let w1 = emit (Typing (room_id (prop_room c)) True) w;
                  w2 = (case typingTimeoutRef c of
                          None \<Rightarrow> w1
                        | Some i \<Rightarrow> clearTimeout i w1);
                  (i', w3) = setTimeout (room_id (prop_room c)) 1000 w2
              in w3\<lparr>chat := Some (c\<lparr>newMessage := v, typingTimeoutRef := Some i'\<rparr>)\<rparr>)
           else w\<lparr>chat := Some (c\<lparr>newMessage := v\<rparr>)\<rparr>))"

definition ChatRoom_handleLeaveRoom :: "app \<Rightarrow> app" where
  "ChatRoom_handleLeaveRoom w =
     (case chat w of
        None \<Rightarrow> w
      | Some c \<Rightarrow>
          App_handleLeaveRoom
            (if socket w then emit (Leave_room (room_id (prop_room c))) w else w))"

subsection \<open>What can happen to the client\<close>

text \<open>
  An inbound event reaches a listener only while the listeners are attached; a listener
  that throws leaves the state as it was.
\<close>

definition deliver :: "in_event \<Rightarrow> app \<Rightarrow> app" where
  "deliver e w =
     (if listening w
      then (case chat w of
              None \<Rightarrow> w
            | Some c \<Rightarrow>
                (case listener e c of
                   Inl err \<Rightarrow> w
                 | Inr c' \<Rightarrow> w\<lparr>chat := Some c'\<rparr>))
      else w)"

text \<open>
  SocketProvider stores the socket after its first effect; a mounted ChatRoom then runs
  its own effect, whose dependencies include the socket.
\<close>

definition socket_ready :: "app \<Rightarrow> app" where
  "socket_ready w =
     (if socket w then w
      else (case chat w of
              None \<Rightarrow> w\<lparr>socket := True\<rparr>
            | Some c \<Rightarrow> ChatRoom_effect c (w\<lparr>socket := True\<rparr>)))"

datatype ui_event =
    Type_username js_string
  | Submit_username
  | Select_room room
  | Create_room room
  | Keystroke js_string
  | Submit_message
  | Click_leave
  | Inbound in_event
  | Socket_ready

text \<open>
  App renders UsernameModal only in state \<open>username\<close> and RoomSelection only in state
  \<open>rooms\<close>, so their events exist only then; the handlers of ChatRoom need it mounted.
\<close>

fun step :: "ui_event \<Rightarrow> app \<Rightarrow> app" where
  "step (Type_username s) w =
     (if appState w = St_username then w\<lparr>username_input := s\<rparr> else w)"
| "step Submit_username w = (if appState w = St_username then handleSubmit w else w)"
| "step (Select_room r) w = (if appState w = St_rooms then handleJoinRoom r w else w)"
| "step (Create_room r) w = (if appState w = St_rooms then handleCreateRoom r w else w)"
| "step (Keystroke v) w = handleTyping v w"
| "step Submit_message w = handleSendMessage w"
| "step Click_leave w = ChatRoom_handleLeaveRoom w"
| "step (Inbound e) w = deliver e w"
| "step Socket_ready w = socket_ready w"

text \<open>A run: events with the times at which they happen.\<close>

fun run :: "(nat \<times> ui_event) list \<Rightarrow> app \<Rightarrow> app" where
  "run [] w = w"
| "run ((t, e) # es) w = run es (step e (advance t w))"

subsection \<open>What ChatRoom shows\<close>

text \<open>The message list is rendered against the \<open>username\<close> prop of the component.\<close>

definition render_messages :: "chat_room \<Rightarrow> message_view list" where
  "render_messages c = map (render_message (prop_username c)) (messages c)"


section \<open>Notions used in the properties\<close>

text \<open>A burst of keystrokes: times and the text of the input field after each.\<close>

definition keystrokes :: "(nat \<times> js_string) list \<Rightarrow> (nat \<times> ui_event) list" where
  "keystrokes ks = map (\<lambda>(t, v). (t, Keystroke v)) ks"

text \<open>
  \<open>spaced t ks\<close>: the keystrokes \<open>ks\<close> follow a keystroke at time \<open>t\<close>, each
  one later than or with its predecessor and less than 1000ms after it.
\<close>

fun spaced :: "nat \<Rightarrow> (nat \<times> js_string) list \<Rightarrow> bool" where
  "spaced t [] = True"
| "spaced t ((t', v) # ks) = (t \<le> t' \<and> t' < t + 1000 \<and> spaced t' ks)"

fun last_time :: "nat \<Rightarrow> (nat \<times> js_string) list \<Rightarrow> nat" where
  "last_time t [] = t"
| "last_time t ((t', v) # ks) = last_time t' ks"

text \<open>
  Within one room session: no timer is pending, or exactly one, the one whose handle
  \<open>typingTimeoutRef\<close> holds. With no ChatRoom mounted it asks for no pending timer.
\<close>

definition own_timer_only :: "app \<Rightarrow> bool" where
  "own_timer_only w =
     (case chat w of
        None \<Rightarrow> timers w = []
      | Some c \<Rightarrow>
          (case timers w of
             [] \<Rightarrow> True
           | [x] \<Rightarrow> typingTimeoutRef c = Some (timer_id x)
           | _ \<Rightarrow> False))"

subsection \<open>Example data\<close>

definition room_R1 :: room where
  "room_R1 = \<lparr>room_id = js ''r1'', room_name = js ''General'',
              created_by = js ''user'', created_at = js ''2025-01-01''\<rparr>"

definition room_R2 :: room where
  "room_R2 = \<lparr>room_id = js ''r2'', room_name = js ''Random'',
              created_by = js ''user'', created_at = js ''2025-01-02''\<rparr>"

text \<open>The user enters \<open>" alice "\<close> as the username and picks the first room.\<close>

definition alice_in_R1 :: app where
  "alice_in_R1 =
     run [(0, Socket_ready), (0, Type_username (js '' alice '')),
          (0, Submit_username), (0, Select_room room_R1)] initial"

definition message_for_R1 :: message where
  "message_for_R1 = \<lparr>msg_username = js ''bob'', msg_message = js ''hi'',
                     msg_timestamp = js ''2025-01-01T10:00:00'', msg_room_id = js ''r1''\<rparr>"

text \<open>Two peers are shown as typing, \<open>a\<close> before \<open>b\<close>.\<close>

definition typing_a_b :: chat_room where
  "typing_a_b = (ChatRoom_initial room_R1 (js ''alice''))\<lparr>typingUsers := [js ''a'', js ''b'']\<rparr>"


text \<open>The room shows \<open>a\<close> and \<open>b\<close> as online.\<close>

definition online_a_b :: chat_room where
  "online_a_b = (ChatRoom_initial room_R1 (js ''alice''))
                  \<lparr>onlineUsers := [\<lparr>user_username = js ''a''\<rparr>, \<lparr>user_username = js ''b''\<rparr>]\<rparr>"

text \<open>Alice has typed \<open>hi\<close> into the message field at time 0.\<close>

definition typed_hi :: app where
  "typed_hi = run [(0, Keystroke (js ''hi''))] alice_in_R1"


subsection \<open>Notions used in the proofs\<close>

text \<open>
  \<open>armed rid t w\<close>: the last keystroke was at time \<open>t\<close> in room \<open>rid\<close>, and its
  timer, due at \<open>t + 1000\<close>, is the only one pending.
\<close>

definition armed :: "js_string \<Rightarrow> nat \<Rightarrow> app \<Rightarrow> bool" where
  "armed rid t w =
     (socket w \<and> now w = t \<and>
      (case chat w of
         None \<Rightarrow> False
       | Some c \<Rightarrow>
           room_id (prop_room c) = rid \<and>
           (case timers w of
              [x] \<Rightarrow> typingTimeoutRef c = Some (timer_id x) \<and> deadline x = t + 1000
                       \<and> timer_room x = rid
            | _ \<Rightarrow> False)))"

text \<open>A room session that has at most its own timer pending.\<close>

definition in_session :: "app \<Rightarrow> bool" where
  "in_session w = (appState w = St_chat \<and> chat w \<noteq> None \<and> own_timer_only w)"


section \<open>Basic facts\<close>

lemma alice_in_R1_eq:
  "alice_in_R1 =
     \<lparr>username_input = js '' alice '', username = js ''alice'',
      currentRoom = Some room_R1, appState = St_chat,
      chat = Some (ChatRoom_initial room_R1 (js ''alice'')),
      socket = True, listening = True, timers = [], next_timer = 1, now = 0,
      emitted = [(0, Join_room (js ''alice'') (js ''r1''))]\<rparr>"
  by (simp add: alice_in_R1_def initial_def socket_ready_def handleSubmit_def
      handleSetUsername_def truthy_def trim_def isWhiteSpace_def js_def handleJoinRoom_def
      ChatRoom_mount_def ChatRoom_effect_def emit_def advance_def ChatRoom_initial_def
      room_R1_def)

lemma advance_chat [simp]: "chat (advance t w) = chat w"
  and advance_socket [simp]: "socket (advance t w) = socket w"
  and advance_listening [simp]: "listening (advance t w) = listening w"
  and advance_appState [simp]: "appState (advance t w) = appState w"
  and advance_username [simp]: "username (advance t w) = username w"
  and advance_currentRoom [simp]: "currentRoom (advance t w) = currentRoom w"
  and advance_next_timer [simp]: "next_timer (advance t w) = next_timer w"
  and advance_username_input [simp]: "username_input (advance t w) = username_input w"
  by (simp_all add: advance_def)


lemma typed_hi_eq:
  "typed_hi = alice_in_R1
     \<lparr>chat := Some ((ChatRoom_initial room_R1 (js ''alice''))
                      \<lparr>newMessage := js ''hi'', typingTimeoutRef := Some 1\<rparr>),
      timers := [\<lparr>timer_id = 1, deadline = 1000, timer_room = js ''r1''\<rparr>],
      next_timer := 2,
      emitted := [(0, Join_room (js ''alice'') (js ''r1'')), (0, Typing (js ''r1'') True)]\<rparr>"
  by (simp add: typed_hi_def alice_in_R1_eq handleTyping_def emit_def clearTimeout_def
      setTimeout_def advance_def ChatRoom_initial_def room_R1_def)


section \<open>Outbound typing signals\<close>

subsection \<open>A burst of keystrokes\<close>

lemma armedE:
  assumes "armed rid t w"
  obtains c x where "socket w" "now w = t" "chat w = Some c" "room_id (prop_room c) = rid"
    "timers w = [x]" "typingTimeoutRef c = Some (timer_id x)" "deadline x = t + 1000"
    "timer_room x = rid"
  using assms unfolding armed_def
  by (auto split: option.splits list.splits)

lemma handleTyping_socket:
  assumes "chat w = Some c" "socket w"
  shows "handleTyping v w =
           w\<lparr>emitted := emitted w @ [(now w, Typing (room_id (prop_room c)) True)],
             timers := filter (\<lambda>x. Some (timer_id x) \<noteq> typingTimeoutRef c) (timers w)
                       @ [\<lparr>timer_id = next_timer w, deadline = now w + 1000,
                           timer_room = room_id (prop_room c)\<rparr>],
             next_timer := Suc (next_timer w),
             chat := Some (c\<lparr>newMessage := v, typingTimeoutRef := Some (next_timer w)\<rparr>)\<rparr>"
proof (cases "typingTimeoutRef c")
  case None
  with assms show ?thesis
    by (simp add: handleTyping_def emit_def setTimeout_def)
next
  case (Some i)
  have "(\<lambda>x. timer_id x \<noteq> i) = (\<lambda>x. i \<noteq> timer_id x)" by auto
  with Some assms show ?thesis
    by (simp add: handleTyping_def emit_def setTimeout_def clearTimeout_def)
qed

lemma first_keystroke:
  assumes "chat w = Some c" "socket w" "timers w = []" "now w \<le> t"
  shows "armed (room_id (prop_room c)) t (step (Keystroke v) (advance t w))"
    and "emitted (step (Keystroke v) (advance t w))
           = emitted w @ [(t, Typing (room_id (prop_room c)) True)]"
  using assms
  by (simp_all add: armed_def handleTyping_socket advance_def max_def)

lemma next_keystroke:
  assumes "armed rid t w" "t \<le> t'" "t' < t + 1000"
  shows "armed rid t' (step (Keystroke v) (advance t' w))"
    and "emitted (step (Keystroke v) (advance t' w)) = emitted w @ [(t', Typing rid True)]"
proof -
  from assms(1) obtain c x where h: "socket w" "now w = t" "chat w = Some c"
    "room_id (prop_room c) = rid" "timers w = [x]" "typingTimeoutRef c = Some (timer_id x)"
    "deadline x = t + 1000" "timer_room x = rid"
    by (rule armedE)
  from h assms(2,3)
  show "armed rid t' (step (Keystroke v) (advance t' w))"
    by (simp add: armed_def handleTyping_socket advance_def max_def)
  from h assms(2,3)
  show "emitted (step (Keystroke v) (advance t' w)) = emitted w @ [(t', Typing rid True)]"
    by (simp add: handleTyping_socket advance_def max_def)
qed

lemma run_keystrokes:
  "armed rid t w \<Longrightarrow> spaced t ks \<Longrightarrow>
     armed rid (last_time t ks) (run (keystrokes ks) w)
     \<and> emitted (run (keystrokes ks) w)
         = emitted w @ map (\<lambda>(t, v). (t, Typing rid True)) ks"
proof (induction ks arbitrary: t w)
  case Nil
  then show ?case by (simp add: keystrokes_def)
next
  case (Cons k ks)
  obtain t' v where k: "k = (t', v)" by (cases k)
  from Cons.prems(2) k have sp: "t \<le> t'" "t' < t + 1000" "spaced t' ks" by simp_all
  let ?w = "step (Keystroke v) (advance t' w)"
  have a: "armed rid t' ?w" by (rule next_keystroke(1) [OF Cons.prems(1) sp(1,2)])
  have e: "emitted ?w = emitted w @ [(t', Typing rid True)]"
    by (rule next_keystroke(2) [OF Cons.prems(1) sp(1,2)])
  from Cons.IH [OF a sp(3)] e k show ?case by (simp add: keystrokes_def)
qed

lemma armed_expiry:
  assumes "armed rid t w"
  shows "t + 1000 \<le> T \<Longrightarrow> emitted (advance T w) = emitted w @ [(t + 1000, Typing rid False)]"
    and "t + 1000 \<le> T \<Longrightarrow> timers (advance T w) = []"
    and "T < t + 1000 \<Longrightarrow> emitted (advance T w) = emitted w"
proof -
  from assms obtain c x where h: "timers w = [x]" "deadline x = t + 1000" "timer_room x = rid"
    by (rule armedE)
  from h show "t + 1000 \<le> T \<Longrightarrow> emitted (advance T w) = emitted w @ [(t + 1000, Typing rid False)]"
    by (simp add: advance_def)
  from h show "t + 1000 \<le> T \<Longrightarrow> timers (advance T w) = []"
    by (simp add: advance_def)
  from h show "T < t + 1000 \<Longrightarrow> emitted (advance T w) = emitted w"
    by (simp add: advance_def)
qed

text \<open>
  C1 (as the code has it). In a mounted ChatRoom with the socket present and no timer
  pending, take keystrokes each less than 1000ms after the one before, with nothing else
  in between. Every keystroke emits \<open>typing\<close> with \<open>is_typing = true\<close> for the room,
  at the time of the keystroke: n keystrokes give n such events, not one. Exactly one
  \<open>typing\<close> with \<open>is_typing = false\<close> follows, 1000ms after the last keystroke, and
  no timer is pending afterwards; before that moment nothing but the n events is emitted.
\<close>

theorem every_keystroke_emits_typing:
  "chat w = Some c \<Longrightarrow> socket w \<Longrightarrow> timers w = [] \<Longrightarrow> now w \<le> t0 \<Longrightarrow> spaced t0 ks \<Longrightarrow>
     (last_time t0 ks + 1000 \<le> T \<longrightarrow>
        emitted (advance T (run (keystrokes ((t0, v0) # ks)) w))
          = emitted w
            @ map (\<lambda>(t, v). (t, Typing (room_id (prop_room c)) True)) ((t0, v0) # ks)
            @ [(last_time t0 ks + 1000, Typing (room_id (prop_room c)) False)]
        \<and> timers (advance T (run (keystrokes ((t0, v0) # ks)) w)) = [])
     \<and> (T < last_time t0 ks + 1000 \<longrightarrow>
        emitted (advance T (run (keystrokes ((t0, v0) # ks)) w))
          = emitted w
            @ map (\<lambda>(t, v). (t, Typing (room_id (prop_room c)) True)) ((t0, v0) # ks))"
proof -
  assume h: "chat w = Some c" "socket w" "timers w = []" "now w \<le> t0" "spaced t0 ks"
  let ?rid = "room_id (prop_room c)"
  let ?w1 = "step (Keystroke v0) (advance t0 w)"
  let ?w2 = "run (keystrokes ks) ?w1"
  have a1: "armed ?rid t0 ?w1" by (rule first_keystroke(1) [OF h(1-4)])
  have e1: "emitted ?w1 = emitted w @ [(t0, Typing ?rid True)]"
    by (rule first_keystroke(2) [OF h(1-4)])
  from run_keystrokes [OF a1 h(5)]
  have a2: "armed ?rid (last_time t0 ks) ?w2"
    and e2: "emitted ?w2 = emitted ?w1 @ map (\<lambda>(t, v). (t, Typing ?rid True)) ks"
    by simp_all
  have r: "run (keystrokes ((t0, v0) # ks)) w = ?w2" by (simp add: keystrokes_def)
  show ?thesis
    unfolding r using armed_expiry [OF a2, of T] e1 e2 by simp
qed

theorem every_keystroke_emits_typing_witness:
  "chat alice_in_R1 = Some (ChatRoom_initial room_R1 (js ''alice'')) \<and> socket alice_in_R1
   \<and> timers alice_in_R1 = [] \<and> now alice_in_R1 \<le> 0
   \<and> spaced 0 [(200, js ''he''), (400, js ''hel''), (900, js ''hell'')]
   \<and> last_time 0 [(200, js ''he''), (400, js ''hel''), (900, js ''hell'')] + 1000 \<le> 1900
   \<and> emitted (advance 1900 (run (keystrokes
         [(0, js ''h''), (200, js ''he''), (400, js ''hel''), (900, js ''hell'')]) alice_in_R1))
       = [(0, Join_room (js ''alice'') (js ''r1'')),
          (0, Typing (js ''r1'') True), (200, Typing (js ''r1'') True),
          (400, Typing (js ''r1'') True), (900, Typing (js ''r1'') True),
          (1900, Typing (js ''r1'') False)]
   \<and> emitted (advance 1899 (run (keystrokes
         [(0, js ''h''), (200, js ''he''), (400, js ''hel''), (900, js ''hell'')]) alice_in_R1))
       = [(0, Join_room (js ''alice'') (js ''r1'')),
          (0, Typing (js ''r1'') True), (200, Typing (js ''r1'') True),
          (400, Typing (js ''r1'') True), (900, Typing (js ''r1'') True)]"
proof -
  let ?ks = "[(200, js ''he''), (400, js ''hel''), (900, js ''hell'')]"
  have a: "chat alice_in_R1 = Some (ChatRoom_initial room_R1 (js ''alice''))"
    by (simp add: alice_in_R1_eq)
  have b: "socket alice_in_R1" by (simp add: alice_in_R1_eq)
  have c: "timers alice_in_R1 = []" by (simp add: alice_in_R1_eq)
  have d: "now alice_in_R1 \<le> 0" by (simp add: alice_in_R1_eq)
  have e: "spaced 0 ?ks" by simp
  have f: "last_time 0 ?ks + 1000 \<le> 1900" by simp
  have g: "emitted alice_in_R1 = [(0, Join_room (js ''alice'') (js ''r1''))]"
    by (simp add: alice_in_R1_eq)
  have h: "room_id (prop_room (ChatRoom_initial room_R1 (js ''alice''))) = js ''r1''"
    by (simp add: ChatRoom_initial_def room_R1_def)
  from every_keystroke_emits_typing [OF a b c d e, of 1900 "js ''h''"]
       every_keystroke_emits_typing [OF a b c d e, of 1899 "js ''h''"] a b c d e f g h
  show ?thesis by simp
qed

text \<open>
  C1 as stated fails: keystrokes at 0, 200, 400 and 900ms emit four \<open>typing\<close> events
  with \<open>is_typing = true\<close>, not one.
\<close>

theorem typing_true_per_keystroke_counterexample:
  "emitted (advance 1900 (run [(0, Keystroke (js ''h'')), (200, Keystroke (js ''he'')),
                               (400, Keystroke (js ''hel'')), (900, Keystroke (js ''hell''))]
                              alice_in_R1))
     = [(0, Join_room (js ''alice'') (js ''r1'')),
        (0, Typing (js ''r1'') True), (200, Typing (js ''r1'') True),
        (400, Typing (js ''r1'') True), (900, Typing (js ''r1'') True),
        (1900, Typing (js ''r1'') False)]
   \<and> length (filter (\<lambda>(t, e). e = Typing (js ''r1'') True)
        (emitted (advance 1900 (run [(0, Keystroke (js ''h'')), (200, Keystroke (js ''he'')),
                               (400, Keystroke (js ''hel'')), (900, Keystroke (js ''hell''))]
                              alice_in_R1)))) = 4"
  by (simp add: alice_in_R1_eq handleTyping_def emit_def clearTimeout_def setTimeout_def
      advance_def ChatRoom_initial_def room_R1_def js_def)

subsection \<open>Sending a message\<close>

text \<open>
  C2 (as the code has it). Sending a message that does not trim to the empty string,
  with the socket present, emits \<open>send_message\<close> and immediately after it \<open>typing\<close>
  with \<open>is_typing = false\<close>, and empties the message field. It does not touch the
  timers: each pending timer is still pending and, when due, emits a further \<open>typing\<close>
  with \<open>is_typing = false\<close>.
\<close>

theorem send_emits_stop_and_keeps_timer:
  "chat w = Some c \<Longrightarrow> socket w \<Longrightarrow> trim (newMessage c) \<noteq> [] \<Longrightarrow>
     handleSendMessage w
       = w\<lparr>chat := Some (c\<lparr>newMessage := []\<rparr>),
           emitted := emitted w @ [(now w, Send_message (room_id (prop_room c)) (trim (newMessage c))),
                                   (now w, Typing (room_id (prop_room c)) False)]\<rparr>
     \<and> timers (handleSendMessage w) = timers w
     \<and> emitted (advance T (handleSendMessage w))
         = emitted w
           @ [(now w, Send_message (room_id (prop_room c)) (trim (newMessage c))),
              (now w, Typing (room_id (prop_room c)) False)]
           @ map (\<lambda>x. (deadline x, Typing (timer_room x) False))
               (sort_key deadline (filter (\<lambda>x. deadline x \<le> T) (timers w)))"
  by (simp add: handleSendMessage_def truthy_def emit_def advance_def Let_def)

theorem send_emits_stop_and_keeps_timer_witness:
  "chat typed_hi = Some ((ChatRoom_initial room_R1 (js ''alice''))
                      \<lparr>newMessage := js ''hi'', typingTimeoutRef := Some 1\<rparr>)
   \<and> socket typed_hi \<and> trim (js ''hi'') \<noteq> []
   \<and> timers (handleSendMessage typed_hi)
       = [\<lparr>timer_id = 1, deadline = 1000, timer_room = js ''r1''\<rparr>]
   \<and> emitted (advance 2000 (handleSendMessage typed_hi))
       = [(0, Join_room (js ''alice'') (js ''r1'')), (0, Typing (js ''r1'') True),
          (0, Send_message (js ''r1'') (js ''hi'')), (0, Typing (js ''r1'') False),
          (1000, Typing (js ''r1'') False)]"
proof -
  let ?c = "(ChatRoom_initial room_R1 (js ''alice''))
              \<lparr>newMessage := js ''hi'', typingTimeoutRef := Some 1\<rparr>"
  have a: "chat typed_hi = Some ?c" by (simp add: typed_hi_eq)
  have b: "socket typed_hi" by (simp add: typed_hi_eq alice_in_R1_eq)
  have t: "trim (js ''hi'') = js ''hi''" by (simp add: trim_def js_def isWhiteSpace_def)
  have c: "trim (newMessage ?c) \<noteq> []" by (simp add: t) (simp add: js_def)
  have d: "timers typed_hi = [\<lparr>timer_id = 1, deadline = 1000, timer_room = js ''r1''\<rparr>]"
    "emitted typed_hi = [(0, Join_room (js ''alice'') (js ''r1'')), (0, Typing (js ''r1'') True)]"
    "now typed_hi = 0"
    by (simp_all add: typed_hi_eq alice_in_R1_eq)
  have e: "room_id (prop_room ?c) = js ''r1''" by (simp add: ChatRoom_initial_def room_R1_def)
  have f: "trim (js ''hi'') \<noteq> []" by (simp add: t) (simp add: js_def)
  from send_emits_stop_and_keeps_timer [OF a b c, of 2000, THEN conjunct2] a b d e f t
  show ?thesis by simp
qed

text \<open>
  C2 as stated fails: alice types at 0 and sends at 100ms; the timer of the keystroke is
  still pending after the send and emits one more \<open>typing\<close> stop at 1000ms.
\<close>

theorem send_keeps_timer_counterexample:
  "timers (run [(100, Submit_message)] typed_hi)
     = [\<lparr>timer_id = 1, deadline = 1000, timer_room = js ''r1''\<rparr>]
   \<and> emitted (run [(100, Submit_message)] typed_hi)
     = [(0, Join_room (js ''alice'') (js ''r1'')), (0, Typing (js ''r1'') True),
        (100, Send_message (js ''r1'') (js ''hi'')), (100, Typing (js ''r1'') False)]
   \<and> emitted (advance 2000 (run [(100, Submit_message)] typed_hi))
     = emitted (run [(100, Submit_message)] typed_hi) @ [(1000, Typing (js ''r1'') False)]"
  by (simp add: typed_hi_eq alice_in_R1_eq handleSendMessage_def truthy_def trim_def
      isWhiteSpace_def emit_def advance_def ChatRoom_initial_def room_R1_def js_def)

subsection \<open>Timers and leaving the room\<close>

lemma own_timer_only_Some:
  "chat w = Some c \<Longrightarrow>
     own_timer_only w
       = (timers w = [] \<or> (\<exists>x. timers w = [x] \<and> typingTimeoutRef c = Some (timer_id x)))"
  by (auto simp add: own_timer_only_def split: list.splits)

lemma own_timer_only_length: "own_timer_only w \<Longrightarrow> length (timers w) \<le> Suc 0"
  by (auto simp add: own_timer_only_def split: option.splits list.splits)

lemma in_session_advance: "in_session w \<Longrightarrow> in_session (advance t w)"
proof -
  assume h: "in_session w"
  then obtain c where c: "chat w = Some c" by (auto simp add: in_session_def)
  have c': "chat (advance t w) = Some c" using c by simp
  from h c have "timers w = [] \<or> (\<exists>x. timers w = [x] \<and> typingTimeoutRef c = Some (timer_id x))"
    by (simp add: in_session_def own_timer_only_Some)
  then have "own_timer_only (advance t w)"
  proof
    assume "timers w = []"
    then show ?thesis unfolding own_timer_only_Some [OF c'] by (simp add: advance_def)
  next
    assume "\<exists>x. timers w = [x] \<and> typingTimeoutRef c = Some (timer_id x)"
    then obtain x where x: "timers w = [x]" "typingTimeoutRef c = Some (timer_id x)" by blast
    show ?thesis
    proof (cases "deadline x \<le> t")
      case True
      with x show ?thesis unfolding own_timer_only_Some [OF c'] by (simp add: advance_def)
    next
      case False
      with x show ?thesis unfolding own_timer_only_Some [OF c'] by (simp add: advance_def)
    qed
  qed
  with h c' show ?thesis by (simp add: in_session_def)
qed

lemma listener_keeps_ref: "listener e c = Inr c' \<Longrightarrow> typingTimeoutRef c' = typingTimeoutRef c"
  by (cases e)
     (auto simp add: on_room_joined_def on_new_message_def on_user_joined_def on_user_left_def
        on_user_typing_def split: option.splits if_splits)

lemma own_timer_only_chat_update:
  assumes "chat w = Some c" "own_timer_only w" "typingTimeoutRef c' = typingTimeoutRef c"
    "chat w' = Some c'" "timers w' = timers w"
  shows "own_timer_only w'"
  using assms(2,3,5) unfolding own_timer_only_Some [OF assms(1)] own_timer_only_Some [OF assms(4)]
  by simp

lemma in_session_handleTyping: "in_session w \<Longrightarrow> in_session (handleTyping v w)"
proof -
  assume h: "in_session w"
  then obtain c where c: "chat w = Some c" by (auto simp add: in_session_def)
  show ?thesis
  proof (cases "socket w")
    case True
    from h c have "filter (\<lambda>x. Some (timer_id x) \<noteq> typingTimeoutRef c) (timers w) = []"
      by (auto simp add: in_session_def own_timer_only_Some)
    with h c True show ?thesis
      by (simp add: handleTyping_socket in_session_def own_timer_only_def)
  next
    case False
    let ?w' = "w\<lparr>chat := Some (c\<lparr>newMessage := v\<rparr>)\<rparr>"
    from False c have e: "handleTyping v w = ?w'" by (simp add: handleTyping_def)
    from h have o: "own_timer_only w" by (simp add: in_session_def)
    have "own_timer_only ?w'"
      by (rule own_timer_only_chat_update [OF c o, of "c\<lparr>newMessage := v\<rparr>"]) simp_all
    with h show ?thesis unfolding e by (simp add: in_session_def)
  qed
qed

lemma in_session_handleSendMessage: "in_session w \<Longrightarrow> in_session (handleSendMessage w)"
proof -
  assume h: "in_session w"
  then obtain c where c: "chat w = Some c" by (auto simp add: in_session_def)
  from h have o: "own_timer_only w" by (simp add: in_session_def)
  show ?thesis
  proof (cases "truthy (trim (newMessage c)) \<and> socket w")
    case True
    let ?w' = "handleSendMessage w"
    from True c have 1: "chat ?w' = Some (c\<lparr>newMessage := []\<rparr>)" "timers ?w' = timers w"
      "appState ?w' = appState w"
      by (simp_all add: handleSendMessage_def emit_def Let_def)
    have "own_timer_only ?w'"
      by (rule own_timer_only_chat_update [OF c o _ 1(1) 1(2)]) simp
    with h 1 show ?thesis by (simp add: in_session_def)
  next
    case False
    with c have "handleSendMessage w = w" by (auto simp add: handleSendMessage_def)
    with h show ?thesis by simp
  qed
qed

lemma in_session_deliver: "in_session w \<Longrightarrow> in_session (deliver e w)"
proof -
  assume h: "in_session w"
  then obtain c where c: "chat w = Some c" by (auto simp add: in_session_def)
  from h have o: "own_timer_only w" by (simp add: in_session_def)
  show ?thesis
  proof (cases "listening w")
    case True
    show ?thesis
    proof (cases "listener e c")
      case (Inl err)
      with True c have "deliver e w = w" by (simp add: deliver_def)
      with h show ?thesis by simp
    next
      case (Inr c')
      with True c have e: "deliver e w = w\<lparr>chat := Some c'\<rparr>" by (simp add: deliver_def)
      have "own_timer_only (w\<lparr>chat := Some c'\<rparr>)"
        by (rule own_timer_only_chat_update [OF c o listener_keeps_ref [OF Inr]]) simp_all
      with h show ?thesis unfolding e by (simp add: in_session_def)
    qed
  next
    case False
    then have "deliver e w = w" by (simp add: deliver_def)
    with h show ?thesis by simp
  qed
qed

lemma in_session_socket_ready: "in_session w \<Longrightarrow> in_session (socket_ready w)"
proof -
  assume h: "in_session w"
  then obtain c where c: "chat w = Some c" by (auto simp add: in_session_def)
  from h have o: "own_timer_only w" by (simp add: in_session_def)
  let ?w' = "socket_ready w"
  from c have 1: "chat ?w' = Some c" "timers ?w' = timers w" "appState ?w' = appState w"
    by (simp_all add: socket_ready_def ChatRoom_effect_def emit_def)
  have "own_timer_only ?w'"
    by (rule own_timer_only_chat_update [OF c o _ 1(1) 1(2)]) simp
  with h 1 show ?thesis by (simp add: in_session_def)
qed

lemma in_session_step: "in_session w \<Longrightarrow> e \<noteq> Click_leave \<Longrightarrow> in_session (step e w)"
  by (cases e)
     (simp_all add: in_session_handleTyping in_session_handleSendMessage in_session_deliver
        in_session_socket_ready, simp_all add: in_session_def)

lemma in_session_run:
  "in_session w \<Longrightarrow> Click_leave \<notin> snd ` set es \<Longrightarrow> in_session (run es w)"
proof (induction es arbitrary: w)
  case Nil
  then show ?case by simp
next
  case (Cons a es)
  obtain t e where a: "a = (t, e)" by (cases a)
  from Cons.prems(2) a have ne: "e \<noteq> Click_leave" and rest: "Click_leave \<notin> snd ` set es"
    by auto
  have "in_session (step e (advance t w))"
    by (rule in_session_step [OF in_session_advance [OF Cons.prems(1)] ne])
  from Cons.IH [OF this rest] a show ?case by simp
qed

text \<open>
  C3 (as the code has it). In a room session that starts with at most its own timer
  pending, any events other than leaving keep it so: at most one timer is pending, the one
  \<open>typingTimeoutRef\<close> holds. Leaving the room emits \<open>leave_room\<close> (if the socket is
  there), goes back to the room selection, unmounts ChatRoom and detaches the listeners,
  but leaves the timers as they are: each pending timer, when due, still emits \<open>typing\<close>
  with \<open>is_typing = false\<close> for the room that was left.
\<close>

theorem one_timer_per_session_leave_keeps_it:
  "appState w = St_chat \<Longrightarrow> chat w = Some c \<Longrightarrow> own_timer_only w \<Longrightarrow>
     (Click_leave \<notin> snd ` set es \<longrightarrow>
        own_timer_only (run es w) \<and> length (timers (run es w)) \<le> 1)
     \<and> ChatRoom_handleLeaveRoom w
         = w\<lparr>currentRoom := None, appState := St_rooms, chat := None, listening := False,
             emitted := emitted w
               @ (if socket w then [(now w, Leave_room (room_id (prop_room c)))] else [])\<rparr>
     \<and> timers (ChatRoom_handleLeaveRoom w) = timers w
     \<and> emitted (advance T (ChatRoom_handleLeaveRoom w))
         = emitted (ChatRoom_handleLeaveRoom w)
           @ map (\<lambda>x. (deadline x, Typing (timer_room x) False))
               (sort_key deadline (filter (\<lambda>x. deadline x \<le> T) (timers w)))"
proof -
  assume h: "appState w = St_chat" "chat w = Some c" "own_timer_only w"
  then have s: "in_session w" by (simp add: in_session_def)
  have 1: "Click_leave \<notin> snd ` set es \<longrightarrow>
        own_timer_only (run es w) \<and> length (timers (run es w)) \<le> 1"
  proof
    assume "Click_leave \<notin> snd ` set es"
    from in_session_run [OF s this] have "own_timer_only (run es w)"
      by (simp add: in_session_def)
    then show "own_timer_only (run es w) \<and> length (timers (run es w)) \<le> 1"
      using own_timer_only_length [of "run es w"] by simp
  qed
  have 2: "ChatRoom_handleLeaveRoom w
         = w\<lparr>currentRoom := None, appState := St_rooms, chat := None, listening := False,
             emitted := emitted w
               @ (if socket w then [(now w, Leave_room (room_id (prop_room c)))] else [])\<rparr>"
    using h(2)
    by (simp add: ChatRoom_handleLeaveRoom_def App_handleLeaveRoom_def ChatRoom_unmount_def
        emit_def)
  have 3: "timers (ChatRoom_handleLeaveRoom w) = timers w" unfolding 2 by simp
  have 4: "emitted (advance T (ChatRoom_handleLeaveRoom w))
         = emitted (ChatRoom_handleLeaveRoom w)
           @ map (\<lambda>x. (deadline x, Typing (timer_room x) False))
               (sort_key deadline (filter (\<lambda>x. deadline x \<le> T) (timers w)))"
    by (simp add: advance_def 3)
  from 1 2 3 4 show ?thesis by blast
qed

theorem one_timer_per_session_leave_keeps_it_witness:
  "appState typed_hi = St_chat
   \<and> chat typed_hi = Some ((ChatRoom_initial room_R1 (js ''alice''))
                      \<lparr>newMessage := js ''hi'', typingTimeoutRef := Some 1\<rparr>)
   \<and> own_timer_only typed_hi
   \<and> Click_leave \<notin> snd ` set [(200, Keystroke (js ''hi!'')), (300, Submit_message)]
   \<and> length (timers (run [(200, Keystroke (js ''hi!'')), (300, Submit_message)] typed_hi)) \<le> 1
   \<and> timers (ChatRoom_handleLeaveRoom typed_hi)
       = [\<lparr>timer_id = 1, deadline = 1000, timer_room = js ''r1''\<rparr>]
   \<and> emitted (advance 1000 (ChatRoom_handleLeaveRoom typed_hi))
       = [(0, Join_room (js ''alice'') (js ''r1'')), (0, Typing (js ''r1'') True),
          (0, Leave_room (js ''r1'')), (1000, Typing (js ''r1'') False)]"
proof -
  let ?c = "(ChatRoom_initial room_R1 (js ''alice''))
              \<lparr>newMessage := js ''hi'', typingTimeoutRef := Some 1\<rparr>"
  let ?es = "[(200, Keystroke (js ''hi!'')), (300, Submit_message)]"
  have a: "appState typed_hi = St_chat" by (simp add: typed_hi_eq alice_in_R1_eq)
  have b: "chat typed_hi = Some ?c" by (simp add: typed_hi_eq)
  have c: "own_timer_only typed_hi" by (simp add: typed_hi_eq own_timer_only_def)
  have d: "Click_leave \<notin> snd ` set ?es" by simp
  have e: "timers typed_hi = [\<lparr>timer_id = 1, deadline = 1000, timer_room = js ''r1''\<rparr>]"
    "emitted typed_hi = [(0, Join_room (js ''alice'') (js ''r1'')), (0, Typing (js ''r1'') True)]"
    "now typed_hi = 0" "socket typed_hi"
    by (simp_all add: typed_hi_eq alice_in_R1_eq)
  have f: "room_id (prop_room ?c) = js ''r1''" by (simp add: ChatRoom_initial_def room_R1_def)
  note th = one_timer_per_session_leave_keeps_it [OF a b c, of ?es 1000]
  from th d have 1: "length (timers (run ?es typed_hi)) \<le> 1" by blast
  have 2: "emitted (ChatRoom_handleLeaveRoom typed_hi)
     = emitted typed_hi @ [(0, Leave_room (js ''r1''))]"
    by (simp add: th [THEN conjunct2, THEN conjunct1] e ChatRoom_initial_def room_R1_def)
  note 3 = th [THEN conjunct2, THEN conjunct2, THEN conjunct1]
  note 4 = th [THEN conjunct2, THEN conjunct2, THEN conjunct2]
  from a b c d 1 show ?thesis unfolding 4 3 2 by (simp add: e)
qed

text \<open>
  C3 as stated fails: alice types at 0 and leaves at 100ms; the timer is still pending
  after the leave and emits \<open>typing\<close> for the left room at 1000ms. If she joins the same
  room again and types at 300ms, two timers are pending for that room.
\<close>

theorem leave_keeps_timer_counterexample:
  "emitted (advance 2000 (run [(100, Click_leave)] typed_hi))
     = [(0, Join_room (js ''alice'') (js ''r1'')), (0, Typing (js ''r1'') True),
        (100, Leave_room (js ''r1'')), (1000, Typing (js ''r1'') False)]
   \<and> chat (run [(100, Click_leave)] typed_hi) = None
   \<and> timers (run [(100, Click_leave)] typed_hi)
       = [\<lparr>timer_id = 1, deadline = 1000, timer_room = js ''r1''\<rparr>]
   \<and> timers (run [(100, Click_leave), (200, Select_room room_R1), (300, Keystroke (js ''x''))]
                typed_hi)
       = [\<lparr>timer_id = 1, deadline = 1000, timer_room = js ''r1''\<rparr>,
          \<lparr>timer_id = 2, deadline = 1300, timer_room = js ''r1''\<rparr>]"
  by (simp add: typed_hi_eq alice_in_R1_eq ChatRoom_handleLeaveRoom_def App_handleLeaveRoom_def
      ChatRoom_unmount_def handleJoinRoom_def ChatRoom_mount_def ChatRoom_effect_def
      handleTyping_def setTimeout_def clearTimeout_def emit_def advance_def
      ChatRoom_initial_def room_R1_def js_def)


section \<open>Inbound typing signals\<close>

text \<open>
  C4 (as the code has it). An inbound \<open>user_typing\<close> with \<open>is_typing = true\<close> never
  throws and sets the Typing Set to the old one without the username, followed by the
  username. So a username that was absent is appended at the end; a username that was
  present is moved to the end, while all other usernames keep their relative order; the
  username occurs exactly once afterwards; and a second identical signal changes nothing.
\<close>

theorem typing_true_moves_to_end:
  "\<exists>c'. on_user_typing (Some \<lparr>ut_username = u, is_typing = True\<rparr>) c = Inr c'
     \<and> c' = c\<lparr>typingUsers := filter (\<lambda>x. x \<noteq> u) (typingUsers c) @ [u]\<rparr>
     \<and> (u \<notin> set (typingUsers c) \<longrightarrow> typingUsers c' = typingUsers c @ [u])
     \<and> filter (\<lambda>x. x \<noteq> u) (typingUsers c') = filter (\<lambda>x. x \<noteq> u) (typingUsers c)
     \<and> filter (\<lambda>x. x = u) (typingUsers c') = [u]
     \<and> on_user_typing (Some \<lparr>ut_username = u, is_typing = True\<rparr>) c' = Inr c'"
  by (auto simp add: on_user_typing_def filter_id_conv)

theorem typing_true_moves_to_end_witness:
  "js ''c'' \<notin> set (typingUsers typing_a_b)
   \<and> on_user_typing (Some \<lparr>ut_username = js ''c'', is_typing = True\<rparr>) typing_a_b
       = Inr (typing_a_b\<lparr>typingUsers := [js ''a'', js ''b'', js ''c'']\<rparr>)"
proof -
  have a: "js ''c'' \<notin> set (typingUsers typing_a_b)"
    by (simp add: typing_a_b_def js_def)
  from typing_true_moves_to_end [of "js ''c''" typing_a_b] a
  show ?thesis by (auto simp add: typing_a_b_def js_def)
qed

text \<open>
  C4 as stated fails: with \<open>a\<close> and \<open>b\<close> typing, in this order, a repeated signal for
  \<open>a\<close> puts \<open>a\<close> behind \<open>b\<close>.
\<close>

theorem typing_true_position_counterexample:
  "listener (User_typing (Some \<lparr>ut_username = js ''b'', is_typing = True\<rparr>))
     ((ChatRoom_initial room_R1 (js ''alice''))\<lparr>typingUsers := [js ''a'']\<rparr>) = Inr typing_a_b
   \<and> listener (User_typing (Some \<lparr>ut_username = js ''a'', is_typing = True\<rparr>)) typing_a_b
       = Inr (typing_a_b\<lparr>typingUsers := [js ''b'', js ''a'']\<rparr>)
   \<and> typingUsers typing_a_b = [js ''a'', js ''b'']
   \<and> [js ''b'', js ''a''] \<noteq> typingUsers typing_a_b"
  by (simp add: typing_a_b_def on_user_typing_def js_def ChatRoom_initial_def)


section \<open>Messages of another room\<close>

text \<open>
  C5 (as the code has it). From a room session with the socket present, leaving and then
  joining a room \<open>r2\<close> gives a fresh ChatRoom, and a \<open>new_message\<close> that arrives after
  the second join is appended to its message list whatever room the message was sent in:
  the list is exactly that message. An inbound event that arrives after the leave and
  before any join changes nothing. While the listeners are attached, \<open>new_message\<close>
  always appends at the tail.
\<close>

theorem new_message_appended_whatever_room:
  "socket w \<Longrightarrow> chat w = Some c \<Longrightarrow>
     chat (run [(t1, Click_leave), (t2, Select_room r2), (t3, Inbound (New_message m))] w)
       = Some ((ChatRoom_initial r2 (username w))\<lparr>messages := [m]\<rparr>)
     \<and> run [(t1, Click_leave), (t2, Inbound e)] w = advance t2 (run [(t1, Click_leave)] w)
     \<and> (listening w \<longrightarrow>
          chat (deliver (New_message m) w) = Some (c\<lparr>messages := messages c @ [m]\<rparr>))"
  by (simp add: ChatRoom_handleLeaveRoom_def App_handleLeaveRoom_def ChatRoom_unmount_def
      handleJoinRoom_def ChatRoom_mount_def ChatRoom_effect_def emit_def deliver_def
      on_new_message_def ChatRoom_initial_def)

theorem new_message_appended_whatever_room_witness:
  "socket alice_in_R1 \<and> chat alice_in_R1 = Some (ChatRoom_initial room_R1 (js ''alice''))
   \<and> listening alice_in_R1
   \<and> chat (run [(10, Click_leave), (20, Select_room room_R2),
                  (30, Inbound (New_message message_for_R1))] alice_in_R1)
       = Some ((ChatRoom_initial room_R2 (js ''alice''))\<lparr>messages := [message_for_R1]\<rparr>)
   \<and> chat (deliver (New_message message_for_R1) alice_in_R1)
       = Some ((ChatRoom_initial room_R1 (js ''alice''))\<lparr>messages := [message_for_R1]\<rparr>)"
proof -
  have a: "socket alice_in_R1" by (simp add: alice_in_R1_eq)
  have b: "chat alice_in_R1 = Some (ChatRoom_initial room_R1 (js ''alice''))"
    by (simp add: alice_in_R1_eq)
  have c: "listening alice_in_R1" by (simp add: alice_in_R1_eq)
  have d: "username alice_in_R1 = js ''alice''" by (simp add: alice_in_R1_eq)
  from new_message_appended_whatever_room [OF a b, of 10 20 room_R2 30 message_for_R1] a b c d
  show ?thesis by (simp add: ChatRoom_initial_def)
qed

text \<open>
  C5 as stated fails: alice joins R1, leaves, joins R2; a message sent in R1 that arrives
  afterwards is in the message list of the ChatRoom of R2.
\<close>

theorem stale_message_counterexample:
  "map_option messages
     (chat (run [(10, Click_leave), (20, Select_room room_R2),
                 (30, Inbound (New_message message_for_R1))] alice_in_R1)) = Some [message_for_R1]
   \<and> map_option prop_room
     (chat (run [(10, Click_leave), (20, Select_room room_R2),
                 (30, Inbound (New_message message_for_R1))] alice_in_R1)) = Some room_R2
   \<and> msg_room_id message_for_R1 = room_id room_R1
   \<and> room_id room_R1 \<noteq> room_id room_R2"
  by (simp add: alice_in_R1_eq ChatRoom_handleLeaveRoom_def App_handleLeaveRoom_def
      ChatRoom_unmount_def handleJoinRoom_def ChatRoom_mount_def ChatRoom_effect_def emit_def
      deliver_def on_new_message_def ChatRoom_initial_def advance_def message_for_R1_def
      room_R1_def room_R2_def js_def)


section \<open>Membership snapshots\<close>

text \<open>
  C6. Whatever the component state was, \<open>room_joined\<close>, \<open>user_joined\<close> and
  \<open>user_left\<close> with a \<open>users\<close> list set the online users to exactly that list and
  touch nothing else (\<open>room_joined\<close> also sets the messages). With a and b online,
  \<open>user_left\<close> with users = [a] leaves exactly [a].
\<close>

theorem membership_replaced_wholesale:
  "on_room_joined (Some \<lparr>rj_messages = ms, rj_users = Some us\<rparr>) c
     = Inr (c\<lparr>messages := or_empty ms, onlineUsers := us\<rparr>)
   \<and> on_user_joined (Some \<lparr>users = Some us\<rparr>) c = Inr (c\<lparr>onlineUsers := us\<rparr>)
   \<and> on_user_left (Some \<lparr>users = Some us\<rparr>) c = Inr (c\<lparr>onlineUsers := us\<rparr>)
   \<and> on_user_left (Some \<lparr>users = Some [\<lparr>user_username = js ''a''\<rparr>]\<rparr>)
        (c\<lparr>onlineUsers := [\<lparr>user_username = js ''a''\<rparr>, \<lparr>user_username = js ''b''\<rparr>]\<rparr>)
     = Inr (c\<lparr>onlineUsers := [\<lparr>user_username = js ''a''\<rparr>]\<rparr>)"
  by (simp add: on_room_joined_def on_user_joined_def on_user_left_def or_empty_def)

text \<open>
  C7 (as the code has it). When the event carries a payload object: a \<open>room_joined\<close>
  payload without \<open>messages\<close> gives the empty message list, one without \<open>users\<close>
  the empty user list; \<open>user_joined\<close> and \<open>user_left\<close> without \<open>users\<close> give the
  empty user list; each listener returns a state, not an error. When the event carries no
  payload at all, each of the three listeners throws a TypeError before any state is set,
  and the client is left exactly as it was.
\<close>

theorem absent_fields_default_to_empty:
  "on_room_joined (Some \<lparr>rj_messages = None, rj_users = us\<rparr>) c
     = Inr (c\<lparr>messages := [], onlineUsers := or_empty us\<rparr>)
   \<and> on_room_joined (Some \<lparr>rj_messages = ms, rj_users = None\<rparr>) c
     = Inr (c\<lparr>messages := or_empty ms, onlineUsers := []\<rparr>)
   \<and> on_user_joined (Some \<lparr>users = None\<rparr>) c = Inr (c\<lparr>onlineUsers := []\<rparr>)
   \<and> on_user_left (Some \<lparr>users = None\<rparr>) c = Inr (c\<lparr>onlineUsers := []\<rparr>)
   \<and> on_room_joined None c = Inl TypeError
   \<and> on_user_joined None c = Inl TypeError
   \<and> on_user_left None c = Inl TypeError
   \<and> deliver (Room_joined None) w = w
   \<and> deliver (User_joined None) w = w
   \<and> deliver (User_left None) w = w"
  by (simp add: on_room_joined_def on_user_joined_def on_user_left_def or_empty_def
      deliver_def split: option.splits)

text \<open>
  C7 as stated fails: a \<open>user_left\<close> event with no payload has no \<open>users\<close> field, yet
  the listener throws and the two online users stay; the same for \<open>user_joined\<close> and
  \<open>room_joined\<close>.
\<close>

theorem missing_payload_counterexample:
  "listener (User_left None) online_a_b = Inl TypeError
   \<and> listener (User_joined None) online_a_b = Inl TypeError
   \<and> listener (Room_joined None) online_a_b = Inl TypeError
   \<and> map_option onlineUsers
        (chat (deliver (User_left None) (alice_in_R1\<lparr>chat := Some online_a_b\<rparr>)))
       = Some [\<lparr>user_username = js ''a''\<rparr>, \<lparr>user_username = js ''b''\<rparr>]
   \<and> [\<lparr>user_username = js ''a''\<rparr>, \<lparr>user_username = js ''b''\<rparr>] \<noteq> []"
  by (simp add: on_room_joined_def on_user_joined_def on_user_left_def deliver_def
      alice_in_R1_eq online_a_b_def)


section \<open>Local input\<close>

text \<open>
  C8. If the username field trims to the empty string, submitting it leaves the whole
  client as it was; if the message field trims to the empty string, so does sending it.
  The client state includes the log of emitted events, so nothing is emitted.
\<close>

theorem blank_input_is_noop:
  "(trim (username_input w) = [] \<longrightarrow> handleSubmit w = w \<and> step Submit_username w = w)
   \<and> (chat w = Some c \<and> trim (newMessage c) = [] \<longrightarrow>
        handleSendMessage w = w \<and> step Submit_message w = w)"
  by (simp add: handleSubmit_def handleSendMessage_def truthy_def)

theorem blank_input_is_noop_witness:
  "trim (username_input (initial\<lparr>username_input := js ''  ''\<rparr>)) = []
   \<and> handleSubmit (initial\<lparr>username_input := js ''  ''\<rparr>) = initial\<lparr>username_input := js ''  ''\<rparr>
   \<and> chat (step (Keystroke (js '' '')) alice_in_R1)
       = Some ((ChatRoom_initial room_R1 (js ''alice''))
                 \<lparr>newMessage := js '' '', typingTimeoutRef := Some 1\<rparr>)
   \<and> trim (js '' '') = []
   \<and> handleSendMessage (step (Keystroke (js '' '')) alice_in_R1)
       = step (Keystroke (js '' '')) alice_in_R1"
proof -
  let ?w1 = "initial\<lparr>username_input := js ''  ''\<rparr>"
  let ?w2 = "step (Keystroke (js '' '')) alice_in_R1"
  let ?c = "(ChatRoom_initial room_R1 (js ''alice''))
              \<lparr>newMessage := js '' '', typingTimeoutRef := Some 1\<rparr>"
  have a: "trim (username_input ?w1) = []"
    by (simp add: initial_def trim_def js_def isWhiteSpace_def)
  have b: "chat ?w2 = Some ?c"
    by (simp add: alice_in_R1_eq handleTyping_def emit_def setTimeout_def ChatRoom_initial_def)
  have c: "trim (newMessage ?c) = []" by (simp add: trim_def js_def isWhiteSpace_def)
  from a b c blank_input_is_noop [of ?w1] blank_input_is_noop [of ?w2 ?c]
  show ?thesis by simp
qed

text \<open>
  C10. If the username field does not trim to the empty string, submitting it stores the
  trimmed string as the username; a ChatRoom mounted next gets that string as its
  \<open>username\<close> prop, renders its messages against it, and (the socket being there)
  emits \<open>join_room\<close> with it.
\<close>

theorem identity_is_trimmed_input:
  "trim (username_input w) \<noteq> [] \<Longrightarrow>
     username (handleSubmit w) = trim (username_input w)
     \<and> appState (handleSubmit w) = St_rooms
     \<and> chat (handleJoinRoom r (handleSubmit w))
         = Some (ChatRoom_initial r (trim (username_input w)))
     \<and> render_messages ((ChatRoom_initial r (trim (username_input w)))\<lparr>messages := ms\<rparr>)
         = map (render_message (trim (username_input w))) ms
     \<and> (socket w \<longrightarrow>
          emitted (handleJoinRoom r (handleSubmit w))
            = emitted w @ [(now w, Join_room (trim (username_input w)) (room_id r))])"
  by (simp add: handleSubmit_def handleSetUsername_def truthy_def handleJoinRoom_def
      ChatRoom_mount_def ChatRoom_effect_def emit_def ChatRoom_initial_def render_messages_def
      Let_def)

theorem identity_is_trimmed_input_witness:
  "trim (username_input (initial\<lparr>username_input := js '' alice '', socket := True\<rparr>)) \<noteq> []
   \<and> username (handleSubmit (initial\<lparr>username_input := js '' alice '', socket := True\<rparr>))
       = js ''alice''
   \<and> emitted (handleJoinRoom room_R1
                 (handleSubmit (initial\<lparr>username_input := js '' alice '', socket := True\<rparr>)))
       = [(0, Join_room (js ''alice'') (js ''r1''))]"
proof -
  let ?w = "initial\<lparr>username_input := js '' alice '', socket := True\<rparr>"
  have t: "trim (username_input ?w) = js ''alice''"
    by (simp add: initial_def trim_def js_def isWhiteSpace_def)
  have a: "trim (username_input ?w) \<noteq> []" unfolding t by (simp add: js_def)
  from identity_is_trimmed_input [OF a, of room_R1] t a
  show ?thesis by (simp add: initial_def room_R1_def)
qed


section \<open>Own and other messages\<close>

text \<open>
  C9. A message is laid out as the user's own (right-aligned, blue, without a sender
  label) exactly when its \<open>username\<close> is equal to the \<open>username\<close> prop. For the
  identity alice, a message of alice is own and a message of alice2 is not.
\<close>

theorem own_message_by_exact_equality:
  "(row_justify (render_message u m) = Justify_end) = (msg_username m = u)
   \<and> (bubble (render_message u m) = Blue_bubble) = (msg_username m = u)
   \<and> (sender_label (render_message u m) = None) = (msg_username m = u)
   \<and> row_justify (render_message (js ''alice'') (m\<lparr>msg_username := js ''alice''\<rparr>)) = Justify_end
   \<and> row_justify (render_message (js ''alice'') (m\<lparr>msg_username := js ''alice2''\<rparr>)) = Justify_start
   \<and> render_messages c = map (render_message (prop_username c)) (messages c)"
  by (simp add: render_message_def render_messages_def js_def)

end
